theory Spec2Isabelle
  imports Complex_Main
begin

section \<open>JavaScript numbers and the conversions the calculator uses\<close>

text \<open>
  The calculator of \<^verbatim>\<open>src/components/PricingCalculator.tsx\<close> (the first component of
  the file, lines 1 to 868) computes with JavaScript numbers. They are modelled as exact
  rationals together with \<open>NaN\<close>.

  The model and IEEE doubles agree on requests whose counts are integers from 0 to
  \<open>10^9\<close>, and the theorems about prices and hours below are stated for such requests.
  There every value the calculator computes is below \<open>2^40\<close>. Hours are multiples of
  one half and the price before the bilingual surcharge is too, and doubles represent
  these exactly. The products \<open>finalPrice * 1.1\<close> and \<open>subtotal * 0.2\<close> are not
  exact in doubles, but each goes straight into \<open>Math.round\<close>: the exact product is a
  multiple of one twentieth, so it is either at least one twentieth away from the next
  value ending in one half, or it ends in one half itself, and then the double product is
  not below it (the doubles for \<open>1.1\<close> and \<open>0.2\<close> lie above eleven tenths and one
  fifth) and both are rounded up.

  Outside that range the model is not the program: it has no infinite values, so a
  number beyond the range of doubles (which JavaScript makes \<open>Infinity\<close>, and
  \<open>Infinity - Infinity\<close> is \<open>NaN\<close>) stays a finite rational here; it does not round
  results to doubles; and it ignores the sign of zero.
\<close>

datatype number = NaN | Num rat

fun js_add :: "number \<Rightarrow> number \<Rightarrow> number" where
  "js_add (Num a) (Num b) = Num (a + b)"
| "js_add _ _ = NaN"

fun js_sub :: "number \<Rightarrow> number \<Rightarrow> number" where
  "js_sub (Num a) (Num b) = Num (a - b)"
| "js_sub _ _ = NaN"

fun js_mul :: "number \<Rightarrow> number \<Rightarrow> number" where
  "js_mul (Num a) (Num b) = Num (a * b)"
| "js_mul _ _ = NaN"

text \<open>Comparisons with \<open>NaN\<close> are false.\<close>

fun js_gt :: "number \<Rightarrow> number \<Rightarrow> bool" where
  "js_gt (Num a) (Num b) = (a > b)"
| "js_gt _ _ = False"

fun js_lt :: "number \<Rightarrow> number \<Rightarrow> bool" where
  "js_lt (Num a) (Num b) = (a < b)"
| "js_lt _ _ = False"

fun js_le :: "number \<Rightarrow> number \<Rightarrow> bool" where
  "js_le (Num a) (Num b) = (a \<le> b)"
| "js_le _ _ = False"

text \<open>\<open>Math.round\<close>: the nearest integer, a tie going towards plus infinity.\<close>

fun Math_round :: "number \<Rightarrow> number" where
  "Math_round (Num a) = Num (of_int \<lfloor>a + 1 / 2\<rfloor>)"
| "Math_round NaN = NaN"

subsection \<open>\<open>Number(string)\<close>\<close>

text \<open>
  \<open>Number\<close> applied to a string: white space is trimmed, the empty string is 0, a
  decimal literal (optional sign, digits, optional fraction, optional exponent) or an
  unsigned hexadecimal, octal or binary literal is its value, anything else is \<open>NaN\<close>.
  Only the ASCII white space characters are trimmed, and the literal \<open>Infinity\<close> has no
  value in this model (it reads as \<open>NaN\<close>).
\<close>

definition isWhite :: "char \<Rightarrow> bool" where
  "isWhite c = (c \<in> set [CHR 0x09, CHR 0x0A, CHR 0x0B, CHR 0x0C, CHR 0x0D, CHR '' ''])"

definition trim_js :: "string \<Rightarrow> string" where
  "trim_js s = rev (dropWhile isWhite (rev (dropWhile isWhite s)))"

definition isDigit :: "char \<Rightarrow> bool" where
  "isDigit c = (c \<in> set ''0123456789'')"

definition digitVal :: "char \<Rightarrow> nat" where
  "digitVal c = of_char c - 48"

definition hexVal :: "char \<Rightarrow> nat option" where
  "hexVal c =
     (if isDigit c then Some (digitVal c)
      else if c \<in> set ''abcdef'' then Some (of_char c - 87)
      else if c \<in> set ''ABCDEF'' then Some (of_char c - 55)
      else None)"

definition decimalValue :: "string \<Rightarrow> nat" where
  "decimalValue ds = foldl (\<lambda>acc c. 10 * acc + digitVal c) 0 ds"

definition radixValue :: "nat \<Rightarrow> string \<Rightarrow> nat option" where
  "radixValue r ds =
     (if ds \<noteq> [] \<and> list_all (\<lambda>c. case hexVal c of None \<Rightarrow> False | Some v \<Rightarrow> v < r) ds
      then Some (foldl (\<lambda>acc c. r * acc + the (hexVal c)) 0 ds)
      else None)"

definition parseNonDecimal :: "string \<Rightarrow> rat option" where
  "parseNonDecimal s =
     (case s of
        c0 # c1 # ds \<Rightarrow>
          if c0 \<noteq> CHR ''0'' then None
          else if c1 = CHR ''x'' \<or> c1 = CHR ''X'' then map_option of_nat (radixValue 16 ds)
          else if c1 = CHR ''o'' \<or> c1 = CHR ''O'' then map_option of_nat (radixValue 8 ds)
          else if c1 = CHR ''b'' \<or> c1 = CHR ''B'' then map_option of_nat (radixValue 2 ds)
          else None
      | _ \<Rightarrow> None)"

definition digitsInt :: "string \<Rightarrow> int option" where
  "digitsInt ds = (if ds \<noteq> [] \<and> list_all isDigit ds then Some (int (decimalValue ds)) else None)"

definition parseExponent :: "string \<Rightarrow> int option" where
  "parseExponent s =
     (case s of
        [] \<Rightarrow> Some 0
      | c # r \<Rightarrow>
          if c = CHR ''e'' \<or> c = CHR ''E'' then
            (case r of
               [] \<Rightarrow> None
             | c2 # r2 \<Rightarrow>
                 if c2 = CHR ''+'' then digitsInt r2
                 else if c2 = CHR ''-'' then map_option uminus (digitsInt r2)
                 else digitsInt r)
          else None)"

definition scale10 :: "rat \<Rightarrow> int \<Rightarrow> rat" where
  "scale10 m e = (if 0 \<le> e then m * 10 ^ nat e else m / 10 ^ nat (- e))"

definition parseUnsignedDecimal :: "string \<Rightarrow> rat option" where
  "parseUnsignedDecimal s =
     (let ip = takeWhile isDigit s;
          r1 = dropWhile isDigit s;
          fp = (case r1 of [] \<Rightarrow> [] | c # t \<Rightarrow> if c = CHR ''.'' then takeWhile isDigit t else []);
          r2 = (case r1 of [] \<Rightarrow> [] | c # t \<Rightarrow> if c = CHR ''.'' then dropWhile isDigit t else r1)
      in if ip = [] \<and> fp = [] then None
         else (case parseExponent r2 of
                 None \<Rightarrow> None
               | Some e \<Rightarrow> Some (scale10 (of_nat (decimalValue (ip @ fp))) (e - int (length fp)))))"

definition parseDecimal :: "string \<Rightarrow> rat option" where
  "parseDecimal s =
     (case s of
        [] \<Rightarrow> None
      | c # r \<Rightarrow>
          if c = CHR ''+'' then parseUnsignedDecimal r
          else if c = CHR ''-'' then map_option uminus (parseUnsignedDecimal r)
          else parseUnsignedDecimal s)"

definition Number_js :: "string \<Rightarrow> number" where
  "Number_js s =
     (let t = trim_js s
      in if t = [] then Num 0
         else (case parseNonDecimal t of
                 Some v \<Rightarrow> Num v
               | None \<Rightarrow> (case parseDecimal t of Some v \<Rightarrow> Num v | None \<Rightarrow> NaN)))"

text \<open>
  The expression \<^verbatim>\<open>Number(data.field || 0)\<close>: the empty string is falsy, so the
  number 0 is converted instead; every other string is converted itself.
\<close>

definition Number_or0 :: "string \<Rightarrow> number" where
  "Number_or0 s = (if s = [] then Num 0 else Number_js s)"

subsection \<open>Numbers inside template literals\<close>

text \<open>
  The string a number has inside a template literal. An integer is written in decimal
  (JavaScript switches to exponent notation from \<open>10^21\<close> on, beyond the model); a
  value with a fraction is written with its decimal digits, at most twenty of them.
\<close>

definition digitChar :: "nat \<Rightarrow> char" where
  "digitChar n = char_of (48 + n)"

fun natToString :: "nat \<Rightarrow> string" where
  "natToString n =
     (if n < 10 then [digitChar n] else natToString (n div 10) @ [digitChar (n mod 10)])"

fun fracDigits :: "nat \<Rightarrow> rat \<Rightarrow> string" where
  "fracDigits 0 r = []"
| "fracDigits (Suc k) r =
     (if r = 0 then []
      else digitChar (nat \<lfloor>r * 10\<rfloor>) # fracDigits k (r * 10 - of_int \<lfloor>r * 10\<rfloor>))"

fun js_toString :: "number \<Rightarrow> string" where
  "js_toString NaN = ''NaN''"
| "js_toString (Num q) =
     (let a = \<bar>q\<bar>; ip = nat \<lfloor>a\<rfloor>; fr = a - of_int \<lfloor>a\<rfloor>
      in (if q < 0 then ''-'' else []) @ natToString ip
         @ (if fr = 0 then [] else ''.'' @ fracDigits 20 fr))"

section \<open>The calculator's data\<close>

record PricingData =
  serviceType :: string
  smDesigns :: string
  banners :: string
  brochures :: string
  illustrations :: string
  packaging :: string
  otherDesignType :: string
  bilingual :: bool
  videoBasic :: string
  videoMid :: string
  videoAdvanced :: string
  videoSubtitles :: bool
  videoNeedsStock :: bool
  videoNeedsScripting :: bool
  name :: string
  company :: string
  email :: string
  phone :: string

record Breakdown =
  basePrice :: number
  volumeAdjustment :: number
  complexityAdjustment :: number
  bilingualBonus :: number
  addOns :: number

record PricingResult =
  monthlyPrice :: number
  breakdown :: Breakdown
  "includes" :: "string list"
  estimatedHours :: number

text \<open>The state the component starts with (\<open>useState\<close>, lines 55 to 74).\<close>

definition initialData :: PricingData where
  "initialData =
     \<lparr>serviceType = '''', smDesigns = ''0'', banners = ''0'', brochures = ''0'',
      illustrations = ''0'', packaging = ''0'', otherDesignType = '''', bilingual = False,
      videoBasic = ''0'', videoMid = ''0'', videoAdvanced = ''0'', videoSubtitles = False,
      videoNeedsStock = False, videoNeedsScripting = False,
      name = '''', company = '''', email = '''', phone = ''''\<rparr>"

section \<open>The pricing functions\<close>

definition calculateDesignHours :: "PricingData \<Rightarrow> number" where
  "calculateDesignHours d =
     (let sm = Number_or0 (smDesigns d);
          banners = Number_or0 (banners d);
          brochures = Number_or0 (brochures d);
          illustrations = Number_or0 (illustrations d);
          packaging = Number_or0 (packaging d)
      in js_add (js_add (js_add (js_add (js_mul sm (Num 1)) (js_mul banners (Num (3 / 2))))
           (js_mul brochures (Num 5))) (js_mul illustrations (Num 3))) (js_mul packaging (Num 5)))"

text \<open>
  The object \<open>getGraphicTotals\<close> returns. Its first five properties have the names of
  fields of the request and carry the prefix \<open>gt_\<close> here.
\<close>

record GraphicTotals =
  gt_sm :: number
  gt_banners :: number
  gt_brochures :: number
  gt_illustrations :: number
  gt_packaging :: number
  totalCount :: number
  totalHours :: number

definition getGraphicTotals :: "PricingData \<Rightarrow> GraphicTotals" where
  "getGraphicTotals d =
     (let sm = Number_or0 (smDesigns d);
          banners = Number_or0 (banners d);
          brochures = Number_or0 (brochures d);
          illustrations = Number_or0 (illustrations d);
          packaging = Number_or0 (packaging d);
          totalCount = js_add (js_add (js_add (js_add sm banners) brochures) illustrations) packaging;
          totalHours =
            js_add (js_add (js_add (js_add (js_mul sm (Num 1)) (js_mul banners (Num (3 / 2))))
              (js_mul brochures (Num 5))) (js_mul illustrations (Num 3))) (js_mul packaging (Num 5))
      in \<lparr>gt_sm = sm, gt_banners = banners, gt_brochures = brochures,
          gt_illustrations = illustrations, gt_packaging = packaging,
          totalCount = totalCount, totalHours = totalHours\<rparr>)"

record Pricing =
  price :: number
  hours :: number

text \<open>
  The value of the local variable \<open>finalPrice\<close> of \<open>computeGraphicPricing\<close> when the
  \<open>return\<close> is reached, before \<open>Math.round\<close>.
\<close>

definition graphicFinalPrice :: "PricingData \<Rightarrow> number" where
  "graphicFinalPrice d =
     (let totalHours = totalHours (getGraphicTotals d);
          Base_Price = Num 499;
          Base_Hours = Num 55;
          Extra_Hourly_Rate = Num 9;
          finalPrice = Base_Price;
          finalPrice =
            (if js_gt totalHours Base_Hours
             then (let extraHours = js_sub totalHours Base_Hours
                   in js_add finalPrice (js_mul extraHours Extra_Hourly_Rate))
             else finalPrice);
          finalPrice = (if bilingual d then js_mul finalPrice (Num (11 / 10)) else finalPrice)
      in finalPrice)"

definition computeGraphicPricing :: "PricingData \<Rightarrow> Pricing" where
  "computeGraphicPricing d =
     \<lparr>price = Math_round (graphicFinalPrice d), hours = totalHours (getGraphicTotals d)\<rparr>"

definition computeVideoPricing :: "PricingData \<Rightarrow> Pricing" where
  "computeVideoPricing d =
     (let basic = Number_or0 (videoBasic d);
          mid = Number_or0 (videoMid d);
          adv = Number_or0 (videoAdvanced d);
          basePrice = Num 699;
          baseHours = Num 55;
          extraRate = Num 12;
          totalHours = js_add (js_add (js_mul basic (Num (5 / 2))) (js_mul mid (Num 5))) (js_mul adv (Num 11));
          totalVideos = js_add (js_add basic mid) adv;
          totalHours =
            (if videoNeedsScripting d then js_add totalHours (js_mul totalVideos (Num 1)) else totalHours);
          totalHours =
            (if videoNeedsStock d then js_add totalHours (js_mul totalVideos (Num (1 / 2))) else totalHours);
          finalPrice = basePrice;
          finalPrice =
            (if js_gt totalHours baseHours
             then (let extraHours = js_sub totalHours baseHours
                   in js_add finalPrice (js_mul extraHours extraRate))
             else finalPrice)
      in \<lparr>price = Math_round finalPrice, hours = totalHours\<rparr>)"

text \<open>\<open>result.includes.push(s)\<close>.\<close>

definition push :: "PricingResult \<Rightarrow> string \<Rightarrow> PricingResult" where
  "push r s = r\<lparr>includes := includes r @ [s]\<rparr>"

text \<open>The template literal \<^verbatim>\<open>`${totalVideos} videos/month (...)`\<close>.\<close>

definition videosLine :: "number \<Rightarrow> string" where
  "videosLine totalVideos = js_toString totalVideos @ '' videos/month (mix of basic, mid-level, advanced)''"

definition calculatePricing :: "PricingData \<Rightarrow> PricingResult" where
  "calculatePricing d =
     (let result =
            \<lparr>monthlyPrice = Num 0,
             breakdown = \<lparr>basePrice = Num 0, volumeAdjustment = Num 0, complexityAdjustment = Num 0,
                          bilingualBonus = Num 0, addOns = Num 0\<rparr>,
             includes = [],
             estimatedHours = Num 0\<rparr>
      in if serviceType d = ''graphic'' then
           (let g = computeGraphicPricing d;
                result = result\<lparr>monthlyPrice := price g\<rparr>;
                result = result\<lparr>estimatedHours := hours g\<rparr>;
                result = push result ''Graphic Design Package'';
                result = (if bilingual d then push result ''Arabic & English designs'' else result)
            in result)
         else if serviceType d = ''video'' then
           (let v = computeVideoPricing d;
                result = result\<lparr>monthlyPrice := price v\<rparr>;
                result = result\<lparr>estimatedHours := hours v\<rparr>;
                result = push result ''Video Editing Package'';
                totalVideos =
                  js_add (js_add (Number_or0 (videoBasic d)) (Number_or0 (videoMid d)))
                    (Number_or0 (videoAdvanced d));
                result = (if js_gt totalVideos (Num 0) then push result (videosLine totalVideos) else result);
                result = (if videoSubtitles d then push result ''Subtitles included'' else result);
                result =
                  (if videoNeedsScripting d then push result ''Concept, scripting & planning support''
                   else result);
                result =
                  (if videoNeedsStock d then push result ''Premium stock footage/music licensing''
                   else result)
            in result)
         else if serviceType d = ''both'' then
           (let g = computeGraphicPricing d;
                v = computeVideoPricing d;
                subtotal = js_add (price g) (price v);
                discount = Math_round (js_mul subtotal (Num (1 / 5)));
                result = result\<lparr>monthlyPrice := js_sub subtotal discount\<rparr>;
                result = result\<lparr>estimatedHours := js_add (hours g) (hours v)\<rparr>;
                result = push result ''Complete Creative Package: Design + Video'';
                result = push result ''Bundle discount applied (20%)'';
                result = (if bilingual d then push result ''Arabic & English designs included'' else result);
                totalVideos =
                  js_add (js_add (Number_or0 (videoBasic d)) (Number_or0 (videoMid d)))
                    (Number_or0 (videoAdvanced d));
                result = (if js_gt totalVideos (Num 0) then push result (videosLine totalVideos) else result);
                result = (if videoSubtitles d then push result ''Subtitles included for videos'' else result);
                result =
                  (if videoNeedsScripting d then push result ''Concept, scripting & planning support''
                   else result);
                result =
                  (if videoNeedsStock d then push result ''Premium stock footage/music licensing''
                   else result)
            in result)
         else result)"

section \<open>Vocabulary of the statements\<close>

text \<open>
  The sum of the five components of a breakdown, added the way JavaScript adds numbers.
\<close>

definition breakdownSum :: "Breakdown \<Rightarrow> number" where
  "breakdownSum b =
     js_add (js_add (js_add (js_add (basePrice b) (volumeAdjustment b)) (complexityAdjustment b))
       (bilingualBonus b)) (addOns b)"

text \<open>
  The largest count the statements about prices and hours speak of. Up to it the
  arithmetic of the model is the arithmetic of doubles.
\<close>

definition maxCount :: nat where
  "maxCount = 1000000000"

text \<open>
  The five graphic counts, respectively the three video counts, of a request are
  non-negative integers of at most \<open>maxCount\<close>: the numbers the pricing functions
  obtain from the fields.
\<close>

definition graphicCounts :: "PricingData \<Rightarrow> nat \<Rightarrow> nat \<Rightarrow> nat \<Rightarrow> nat \<Rightarrow> nat \<Rightarrow> bool" where
  "graphicCounts d sm ba br il pa =
     (Number_or0 (smDesigns d) = Num (of_nat sm) \<and> Number_or0 (banners d) = Num (of_nat ba) \<and>
      Number_or0 (brochures d) = Num (of_nat br) \<and> Number_or0 (illustrations d) = Num (of_nat il) \<and>
      Number_or0 (packaging d) = Num (of_nat pa) \<and>
      sm \<le> maxCount \<and> ba \<le> maxCount \<and> br \<le> maxCount \<and> il \<le> maxCount \<and> pa \<le> maxCount)"

definition videoCounts :: "PricingData \<Rightarrow> nat \<Rightarrow> nat \<Rightarrow> nat \<Rightarrow> bool" where
  "videoCounts d vb vm va =
     (Number_or0 (videoBasic d) = Num (of_nat vb) \<and> Number_or0 (videoMid d) = Num (of_nat vm) \<and>
      Number_or0 (videoAdvanced d) = Num (of_nat va) \<and>
      vb \<le> maxCount \<and> vm \<le> maxCount \<and> va \<le> maxCount)"

text \<open>
  The total required hours as the weighted sum of the item counts: 1, 1.5, 5, 3 and 5
  hours for a social media design, a banner, a brochure, an illustration and a packaging
  design; 2.5, 5 and 11 hours for a basic, a mid-level and an advanced video, and for
  every video one hour more with scripting support and half an hour more with stock
  footage.
\<close>

definition weightedGraphicHours :: "nat \<Rightarrow> nat \<Rightarrow> nat \<Rightarrow> nat \<Rightarrow> nat \<Rightarrow> rat" where
  "weightedGraphicHours sm ba br il pa =
     of_nat sm * 1 + of_nat ba * (3 / 2) + of_nat br * 5 + of_nat il * 3 + of_nat pa * 5"

definition weightedVideoHours :: "bool \<Rightarrow> bool \<Rightarrow> nat \<Rightarrow> nat \<Rightarrow> nat \<Rightarrow> rat" where
  "weightedVideoHours scripting stock vb vm va =
     of_nat vb * (5 / 2) + of_nat vm * 5 + of_nat va * 11
       + (if scripting then of_nat (vb + vm + va) * 1 else 0)
       + (if stock then of_nat (vb + vm + va) * (1 / 2) else 0)"

text \<open>A field of at most nine decimal digits (an empty field included).\<close>

definition digitField :: "string \<Rightarrow> bool" where
  "digitField s = (list_all isDigit s \<and> length s \<le> 9)"

text \<open>
  Two requests agree on everything the graphic pricing reads, respectively on everything
  the video pricing reads.
\<close>

definition sameGraphicInput :: "PricingData \<Rightarrow> PricingData \<Rightarrow> bool" where
  "sameGraphicInput d d' =
     (smDesigns d = smDesigns d' \<and> banners d = banners d' \<and> brochures d = brochures d' \<and>
      illustrations d = illustrations d' \<and> packaging d = packaging d' \<and> bilingual d = bilingual d')"

definition sameVideoInput :: "PricingData \<Rightarrow> PricingData \<Rightarrow> bool" where
  "sameVideoInput d d' =
     (videoBasic d = videoBasic d' \<and> videoMid d = videoMid d' \<and> videoAdvanced d = videoAdvanced d' \<and>
      videoNeedsStock d = videoNeedsStock d' \<and> videoNeedsScripting d = videoNeedsScripting d')"

definition isNonNegInteger :: "number \<Rightarrow> bool" where
  "isNonNegInteger n = (case n of NaN \<Rightarrow> False | Num q \<Rightarrow> 0 \<le> q \<and> of_int \<lfloor>q\<rfloor> = q)"

section \<open>Proof vocabulary\<close>

text \<open>
  Names for quantities of the proofs: the hours beyond the 55 included ones, the integer
  each pricing function returns as its price, the price of the bundle as a function of
  the integer subtotal, and the hours of a request counted in half hours.
\<close>

definition excess :: "number \<Rightarrow> rat" where
  "excess H = (case H of NaN \<Rightarrow> 0 | Num h \<Rightarrow> if 55 < h then h - 55 else 0)"

definition graphicInt :: "PricingData \<Rightarrow> int" where
  "graphicInt d =
     \<lfloor>(499 + excess (totalHours (getGraphicTotals d)) * 9) * (if bilingual d then 11 / 10 else 1) + 1 / 2\<rfloor>"

definition videoInt :: "PricingData \<Rightarrow> int" where
  "videoInt d = \<lfloor>699 + excess (hours (computeVideoPricing d)) * 12 + 1 / 2\<rfloor>"

definition bundleOf :: "int \<Rightarrow> int" where
  "bundleOf s = s - (2 * s + 5) div 10"

definition graphicHalfHours :: "nat \<Rightarrow> nat \<Rightarrow> nat \<Rightarrow> nat \<Rightarrow> nat \<Rightarrow> nat" where
  "graphicHalfHours sm ba br il pa = 2 * sm + 3 * ba + 10 * br + 6 * il + 10 * pa"

definition videoHalfHours :: "bool \<Rightarrow> bool \<Rightarrow> nat \<Rightarrow> nat \<Rightarrow> nat \<Rightarrow> nat" where
  "videoHalfHours scripting stock vb vm va =
     5 * vb + 10 * vm + 22 * va + (if scripting then 2 * (vb + vm + va) else 0)
       + (if stock then vb + vm + va else 0)"

section \<open>Arithmetic of rounding and of the bundle discount\<close>

lemma floor_rat_numeral: "\<lfloor>(numeral a :: rat) / numeral b\<rfloor> = numeral a div numeral b"
  using floor_divide_of_int_eq [of "numeral a" "numeral b", where ?'a = rat] by simp

lemma round_fifth: "\<lfloor>(of_int s :: rat) * (1 / 5) + 1 / 2\<rfloor> = (2 * s + 5) div 10"
proof -
  have "(of_int s :: rat) * (1 / 5) + 1 / 2 = of_int (2 * s + 5) / of_int 10"
    by simp
  then show ?thesis
    by (simp only: floor_divide_of_int_eq)
qed

lemma round_fifth': "\<lfloor>(of_int s :: rat) / 5 + 1 / 2\<rfloor> = (2 * s + 5) div 10"
  using round_fifth [of s] by simp

lemma bundle_mono: "s \<le> t \<Longrightarrow> bundleOf s \<le> bundleOf t"
  unfolding bundleOf_def by linarith

lemma bundle_less: "3 \<le> s \<Longrightarrow> bundleOf s < s"
  unfolding bundleOf_def by linarith

lemma both_price_eq:
  "js_sub (js_add (Num (of_int g)) (Num (of_int v)))
     (Math_round (js_mul (js_add (Num (of_int g)) (Num (of_int v))) (Num (1 / 5)))) =
   Num (of_int (bundleOf (g + v)))"
proof -
  have "\<lfloor>(of_int (g + v) :: rat) / 5 + 1 / 2\<rfloor> = (2 * (g + v) + 5) div 10"
    by (rule round_fifth')
  then show ?thesis
    by (simp add: bundleOf_def)
qed

lemma excess_nonneg: "0 \<le> excess H"
  by (cases H) (simp_all add: excess_def)

lemma excess_mono: "a \<le> b \<Longrightarrow> excess (Num a) \<le> excess (Num b)"
  by (simp add: excess_def)

lemma half_hours_excess:
  assumes "55 < (of_nat k :: rat) / 2"
  shows "1 / 2 \<le> excess (Num (of_nat k / 2))"
proof -
  have "(110::rat) < of_nat k" using assms by simp
  then have "(of_nat 110 :: rat) < of_nat k" by simp
  then have "110 < k" by (simp only: of_nat_less_iff)
  then have "111 \<le> k" by simp
  then have "(of_nat 111 :: rat) \<le> of_nat k" by (simp only: of_nat_le_iff)
  then have "(111::rat) / 2 \<le> of_nat k / 2" by simp
  then show ?thesis using assms by (simp add: excess_def)
qed

section \<open>The result of \<open>calculatePricing\<close>, field by field\<close>

lemma push_fields:
  "monthlyPrice (push r s) = monthlyPrice r"
  "estimatedHours (push r s) = estimatedHours r"
  "breakdown (push r s) = breakdown r"
  by (simp_all add: push_def)

lemma push_if_fields:
  "monthlyPrice (if c then push r s else r) = monthlyPrice r"
  "estimatedHours (if c then push r s else r) = estimatedHours r"
  "breakdown (if c then push r s else r) = breakdown r"
  by (simp_all add: push_def)

lemma monthlyPrice_calculatePricing:
  "monthlyPrice (calculatePricing d) =
     (if serviceType d = ''graphic'' then price (computeGraphicPricing d)
      else if serviceType d = ''video'' then price (computeVideoPricing d)
      else if serviceType d = ''both'' then
        js_sub (js_add (price (computeGraphicPricing d)) (price (computeVideoPricing d)))
          (Math_round (js_mul (js_add (price (computeGraphicPricing d)) (price (computeVideoPricing d)))
             (Num (1 / 5))))
      else Num 0)"
  by (simp add: calculatePricing_def Let_def push_fields push_if_fields)

lemma estimatedHours_calculatePricing:
  "estimatedHours (calculatePricing d) =
     (if serviceType d = ''graphic'' then hours (computeGraphicPricing d)
      else if serviceType d = ''video'' then hours (computeVideoPricing d)
      else if serviceType d = ''both'' then
        js_add (hours (computeGraphicPricing d)) (hours (computeVideoPricing d))
      else Num 0)"
  by (simp add: calculatePricing_def Let_def push_fields push_if_fields)

lemma breakdown_calculatePricing:
  "breakdown (calculatePricing d) =
     \<lparr>basePrice = Num 0, volumeAdjustment = Num 0, complexityAdjustment = Num 0,
      bilingualBonus = Num 0, addOns = Num 0\<rparr>"
  by (simp add: calculatePricing_def Let_def push_fields push_if_fields)

lemma calculatePricing_unselected:
  assumes "serviceType d \<notin> {''graphic'', ''video'', ''both''}"
  shows "calculatePricing d =
           \<lparr>monthlyPrice = Num 0,
            breakdown = \<lparr>basePrice = Num 0, volumeAdjustment = Num 0, complexityAdjustment = Num 0,
                         bilingualBonus = Num 0, addOns = Num 0\<rparr>,
            includes = [],
            estimatedHours = Num 0\<rparr>"
  using assms by (simp add: calculatePricing_def)

section \<open>The prices as integers\<close>

lemma graphicFinalPrice_eq:
  "graphicFinalPrice d =
     Num ((499 + excess (totalHours (getGraphicTotals d)) * 9) * (if bilingual d then 11 / 10 else 1))"
  by (cases "totalHours (getGraphicTotals d)") (simp_all add: graphicFinalPrice_def excess_def Let_def)

lemma graphic_price_eq: "price (computeGraphicPricing d) = Num (of_int (graphicInt d))"
  by (simp add: computeGraphicPricing_def graphicFinalPrice_eq graphicInt_def)

lemma graphic_hours_eq: "hours (computeGraphicPricing d) = totalHours (getGraphicTotals d)"
  by (simp add: computeGraphicPricing_def)

lemma video_price_hours:
  "price (computeVideoPricing d) =
     Math_round (if js_gt (hours (computeVideoPricing d)) (Num 55)
                 then js_add (Num 699) (js_mul (js_sub (hours (computeVideoPricing d)) (Num 55)) (Num 12))
                 else Num 699)"
  by (simp add: computeVideoPricing_def Let_def)

lemma video_price_eq: "price (computeVideoPricing d) = Num (of_int (videoInt d))"
  unfolding video_price_hours videoInt_def
  by (cases "hours (computeVideoPricing d)") (simp_all add: excess_def)

lemma graphicInt_ge: "499 \<le> graphicInt d"
proof -
  have "0 \<le> excess (totalHours (getGraphicTotals d)) * 9"
    using excess_nonneg by simp
  then have "(499::rat) \<le> (499 + excess (totalHours (getGraphicTotals d)) * 9) * (if bilingual d then 11 / 10 else 1)"
    by (simp split: if_splits)
  then show ?thesis unfolding graphicInt_def by linarith
qed

lemma videoInt_ge: "699 \<le> videoInt d"
proof -
  have "0 \<le> excess (hours (computeVideoPricing d)) * 12"
    using excess_nonneg by simp
  then show ?thesis unfolding videoInt_def by linarith
qed

lemma monthly_graphic:
  "serviceType d = ''graphic'' \<Longrightarrow> monthlyPrice (calculatePricing d) = Num (of_int (graphicInt d))"
  by (simp add: monthlyPrice_calculatePricing graphic_price_eq)

lemma monthly_video:
  "serviceType d = ''video'' \<Longrightarrow> monthlyPrice (calculatePricing d) = Num (of_int (videoInt d))"
  by (simp add: monthlyPrice_calculatePricing video_price_eq)

lemma monthly_both:
  "serviceType d = ''both'' \<Longrightarrow>
   monthlyPrice (calculatePricing d) = Num (of_int (bundleOf (graphicInt d + videoInt d)))"
  by (simp only: monthlyPrice_calculatePricing graphic_price_eq video_price_eq both_price_eq)
     simp

lemma graphicInt_same: "sameGraphicInput d d' \<Longrightarrow> graphicInt d = graphicInt d'"
  by (simp add: sameGraphicInput_def graphicInt_def getGraphicTotals_def Let_def)

lemma videoInt_same: "sameVideoInput d d' \<Longrightarrow> videoInt d = videoInt d'"
  by (simp add: sameVideoInput_def videoInt_def computeVideoPricing_def Let_def)

section \<open>Hours and prices for integer counts\<close>

lemma graphic_hours_counts:
  "graphicCounts d sm ba br il pa \<Longrightarrow>
   totalHours (getGraphicTotals d) = Num (of_nat (graphicHalfHours sm ba br il pa) / 2)"
  by (simp add: graphicCounts_def getGraphicTotals_def graphicHalfHours_def Let_def field_simps)

lemma video_hours_counts:
  "videoCounts d vb vm va \<Longrightarrow>
   hours (computeVideoPricing d) =
     Num (of_nat (videoHalfHours (videoNeedsScripting d) (videoNeedsStock d) vb vm va) / 2)"
  by (simp add: videoCounts_def computeVideoPricing_def videoHalfHours_def Let_def field_simps)

lemma graphicHalfHours_mono:
  "sm \<le> sm' \<Longrightarrow> ba \<le> ba' \<Longrightarrow> br \<le> br' \<Longrightarrow> il \<le> il' \<Longrightarrow> pa \<le> pa' \<Longrightarrow>
   graphicHalfHours sm ba br il pa \<le> graphicHalfHours sm' ba' br' il' pa'"
  by (simp add: graphicHalfHours_def)

lemma videoHalfHours_mono:
  "vb \<le> vb' \<Longrightarrow> vm \<le> vm' \<Longrightarrow> va \<le> va' \<Longrightarrow>
   videoHalfHours s t vb vm va \<le> videoHalfHours s t vb' vm' va'"
  by (simp add: videoHalfHours_def)

lemma videoHalfHours_zero: "videoHalfHours s t 0 0 0 = 0"
  by (simp add: videoHalfHours_def)

lemma weightedGraphicHours_half:
  "weightedGraphicHours sm ba br il pa = of_nat (graphicHalfHours sm ba br il pa) / 2"
  by (simp add: weightedGraphicHours_def graphicHalfHours_def field_simps)

lemma weightedVideoHours_half:
  "weightedVideoHours s t vb vm va = of_nat (videoHalfHours s t vb vm va) / 2"
  by (simp add: weightedVideoHours_def videoHalfHours_def field_simps)

lemma graphic_hours_weighted:
  "graphicCounts d sm ba br il pa \<Longrightarrow>
   totalHours (getGraphicTotals d) = Num (weightedGraphicHours sm ba br il pa)"
  by (simp add: graphic_hours_counts weightedGraphicHours_half)

lemma video_hours_weighted:
  "videoCounts d vb vm va \<Longrightarrow>
   hours (computeVideoPricing d) =
     Num (weightedVideoHours (videoNeedsScripting d) (videoNeedsStock d) vb vm va)"
  by (simp add: video_hours_counts weightedVideoHours_half)

lemma graphicInt_mono:
  assumes "totalHours (getGraphicTotals d) = Num h" and "totalHours (getGraphicTotals d') = Num h'"
    and "h \<le> h'" and "bilingual d' = bilingual d"
  shows "graphicInt d \<le> graphicInt d'"
proof -
  have "excess (Num h) * 9 \<le> excess (Num h') * 9"
    using excess_mono [OF assms(3)] by simp
  then have "(499 + excess (Num h) * 9) * (if bilingual d then 11 / 10 else 1)
      \<le> (499 + excess (Num h') * 9) * (if bilingual d then 11 / 10 else 1)"
    by simp
  then show ?thesis
    unfolding graphicInt_def assms(1,2,4) by (intro floor_mono) simp
qed

lemma videoInt_mono:
  assumes "hours (computeVideoPricing d) = Num h" and "hours (computeVideoPricing d') = Num h'"
    and "h \<le> h'"
  shows "videoInt d \<le> videoInt d'"
proof -
  have "excess (Num h) * 12 \<le> excess (Num h') * 12"
    using excess_mono [OF assms(3)] by simp
  then show ?thesis
    unfolding videoInt_def assms(1,2) by (intro floor_mono) simp
qed

lemma graphicInt_within:
  assumes "totalHours (getGraphicTotals d) = Num h" and "h \<le> 55"
  shows "graphicInt d = (if bilingual d then 549 else 499)"
  using assms by (simp add: graphicInt_def excess_def floor_rat_numeral)

lemma videoInt_within:
  assumes "hours (computeVideoPricing d) = Num h" and "h \<le> 55"
  shows "videoInt d = 699"
  using assms by (simp add: videoInt_def excess_def floor_rat_numeral)

lemma graphicInt_over:
  assumes "totalHours (getGraphicTotals d) = Num (of_nat k / 2)" and "55 < (of_nat k :: rat) / 2"
  shows "(if bilingual d then 549 else 499) < graphicInt d"
proof -
  let ?e = "excess (Num (of_nat k / 2))"
  have e: "1 / 2 \<le> ?e" using half_hours_excess [OF assms(2)] .
  show ?thesis
  proof (cases "bilingual d")
    case True
    have "(499 + ?e * 9) * (11 / 10) = 5489 / 10 + ?e * (99 / 10)"
      by (simp add: algebra_simps)
    then have "(554::rat) \<le> (499 + ?e * 9) * (11 / 10) + 1 / 2" using e by linarith
    then have "554 \<le> \<lfloor>(499 + ?e * 9) * (11 / 10) + 1 / 2\<rfloor>" by (simp add: le_floor_iff)
    then show ?thesis using True assms(1) by (simp add: graphicInt_def)
  next
    case False
    have "(504::rat) \<le> (499 + ?e * 9) + 1 / 2" using e by simp
    then have "504 \<le> \<lfloor>(499 + ?e * 9) + 1 / 2\<rfloor>" by (simp add: le_floor_iff)
    then show ?thesis using False assms(1) by (simp add: graphicInt_def)
  qed
qed

lemma videoInt_over:
  assumes "hours (computeVideoPricing d) = Num (of_nat k / 2)" and "55 < (of_nat k :: rat) / 2"
  shows "699 < videoInt d"
proof -
  let ?e = "excess (Num (of_nat k / 2))"
  have e: "1 / 2 \<le> ?e" using half_hours_excess [OF assms(2)] .
  have "(705::rat) \<le> 699 + ?e * 12 + 1 / 2" using e by simp
  then have "705 \<le> \<lfloor>699 + ?e * 12 + 1 / 2\<rfloor>" by (simp add: le_floor_iff)
  then show ?thesis using assms(1) by (simp add: videoInt_def)
qed

section \<open>\<open>Number\<close> on strings of decimal digits\<close>

lemma digit_not_white: "isDigit c \<Longrightarrow> \<not> isWhite c"
  by (auto simp add: isDigit_def isWhite_def)

lemma trim_digits:
  assumes "s \<noteq> []" and "list_all isDigit s"
  shows "trim_js s = s"
proof -
  have "isDigit (hd s)" and "isDigit (last s)"
    using assms by (simp_all add: list_all_iff)
  then have "\<not> isWhite (hd s)" and "\<not> isWhite (hd (rev s))"
    using assms(1) by (simp_all add: digit_not_white hd_rev)
  then have "dropWhile isWhite s = s" and "dropWhile isWhite (rev s) = rev s"
    by (simp_all add: dropWhile_eq_self_iff)
  then show ?thesis by (simp add: trim_js_def)
qed

lemma parseNonDecimal_digits:
  assumes "list_all isDigit s"
  shows "parseNonDecimal s = None"
proof (cases s)
  case Nil
  then show ?thesis by (simp add: parseNonDecimal_def)
next
  case (Cons c0 r)
  show ?thesis
  proof (cases r)
    case Nil
    then show ?thesis using Cons by (simp add: parseNonDecimal_def)
  next
    case (Cons c1 ds)
    have "isDigit c1" using assms \<open>s = c0 # r\<close> Cons by simp
    then have "c1 \<notin> set ''xXoObB''" by (auto simp add: isDigit_def)
    then show ?thesis using \<open>s = c0 # r\<close> Cons by (simp add: parseNonDecimal_def)
  qed
qed

lemma parseDecimal_digits:
  assumes "s \<noteq> []" and "list_all isDigit s"
  shows "parseDecimal s = Some (of_nat (decimalValue s))"
proof -
  obtain c r where s: "s = c # r" using assms(1) by (cases s) auto
  have "isDigit c" using assms(2) s by simp
  then have c: "c \<noteq> CHR ''+''" "c \<noteq> CHR ''-''" by (auto simp add: isDigit_def)
  have tw: "takeWhile isDigit s = s" and dw: "dropWhile isDigit s = []"
    using assms(2) by (simp_all add: list_all_iff)
  have "parseUnsignedDecimal s = Some (of_nat (decimalValue s))"
    using assms(1) by (simp add: parseUnsignedDecimal_def tw dw parseExponent_def scale10_def)
  then show ?thesis using s c by (simp add: parseDecimal_def)
qed

lemma Number_js_digits:
  assumes "s \<noteq> []" and "list_all isDigit s"
  shows "Number_js s = Num (of_nat (decimalValue s))"
  using assms by (simp add: Number_js_def trim_digits parseNonDecimal_digits parseDecimal_digits)

lemma Number_or0_digits:
  assumes "list_all isDigit s"
  shows "Number_or0 s = Num (of_nat (decimalValue s))"
proof (cases "s = []")
  case True
  then show ?thesis by (simp add: Number_or0_def decimalValue_def)
next
  case False
  then show ?thesis using assms by (simp add: Number_or0_def Number_js_digits)
qed

lemma digitVal_le: "isDigit c \<Longrightarrow> digitVal c \<le> 9"
  by (auto simp add: isDigit_def digitVal_def)

lemma foldl_digits_less:
  "list_all isDigit ds \<Longrightarrow>
   foldl (\<lambda>acc c. 10 * acc + digitVal c) a ds < (a + 1) * 10 ^ length ds"
proof (induction ds arbitrary: a)
  case Nil
  then show ?case by simp
next
  case (Cons c ds)
  have "digitVal c \<le> 9" using Cons.prems by (simp add: digitVal_le)
  then have "(10 * a + digitVal c + 1) * 10 ^ length ds \<le> (a + 1) * 10 ^ length (c # ds)"
    by (simp add: algebra_simps)
  moreover have "foldl (\<lambda>acc c. 10 * acc + digitVal c) (10 * a + digitVal c) ds
      < (10 * a + digitVal c + 1) * 10 ^ length ds"
    using Cons.IH [of "10 * a + digitVal c"] Cons.prems by simp
  ultimately show ?case by simp
qed

lemma digitField_le: "digitField s \<Longrightarrow> decimalValue s \<le> maxCount"
proof -
  assume a: "digitField s"
  then have "decimalValue s < 10 ^ length s"
    using foldl_digits_less [of s 0] by (simp add: digitField_def decimalValue_def)
  moreover have "(10::nat) ^ length s \<le> 10 ^ 9"
    using a by (intro power_increasing) (simp_all add: digitField_def)
  ultimately show ?thesis by (simp add: maxCount_def)
qed

lemma digitField_Number:
  "digitField s \<Longrightarrow> Number_or0 s = Num (of_nat (decimalValue s))"
  by (simp add: digitField_def Number_or0_digits)

section \<open>The video pricing does not read the subtitles flag\<close>

lemma computeGraphicPricing_subtitles:
  "computeGraphicPricing (d\<lparr>videoSubtitles := b\<rparr>) = computeGraphicPricing d"
  by (simp add: computeGraphicPricing_def graphicFinalPrice_def getGraphicTotals_def)

lemma computeVideoPricing_subtitles:
  "computeVideoPricing (d\<lparr>videoSubtitles := b\<rparr>) = computeVideoPricing d"
  by (simp add: computeVideoPricing_def)

section \<open>The claims\<close>

text \<open>
  C1, as amended. The claim is that the five components of the breakdown sum to
  \<open>monthlyPrice\<close> for every valid request. \<open>calculatePricing\<close> creates the breakdown
  with five zeros and never assigns to it, so for every request the five components are 0
  and their sum is 0, while \<open>monthlyPrice\<close> is taken from the pricing functions. The sum
  equals \<open>monthlyPrice\<close> exactly when the service type is none of \<open>graphic\<close>,
  \<open>video\<close>, \<open>both\<close>.
\<close>

theorem breakdown_stays_zero:
  "breakdown (calculatePricing d) =
     \<lparr>basePrice = Num 0, volumeAdjustment = Num 0, complexityAdjustment = Num 0,
      bilingualBonus = Num 0, addOns = Num 0\<rparr> \<and>
   breakdownSum (breakdown (calculatePricing d)) = Num 0 \<and>
   ((breakdownSum (breakdown (calculatePricing d)) = monthlyPrice (calculatePricing d)) =
    (serviceType d \<notin> {''graphic'', ''video'', ''both''}))"
proof -
  have s: "breakdownSum (breakdown (calculatePricing d)) = Num 0"
    by (simp add: breakdown_calculatePricing breakdownSum_def)
  have p: "(monthlyPrice (calculatePricing d) = Num 0) = (serviceType d \<notin> {''graphic'', ''video'', ''both''})"
  proof (cases "serviceType d \<in> {''graphic'', ''video'', ''both''}")
    case False
    then show ?thesis using calculatePricing_unselected [of d] by simp
  next
    case True
    then consider "serviceType d = ''graphic''" | "serviceType d = ''video''" | "serviceType d = ''both''"
      by blast
    then have "monthlyPrice (calculatePricing d) \<noteq> Num 0"
    proof cases
      case 1
      show ?thesis using monthly_graphic [OF 1] graphicInt_ge [of d] by simp
    next
      case 2
      show ?thesis using monthly_video [OF 2] videoInt_ge [of d] by simp
    next
      case 3
      have "bundleOf (499 + 699) \<le> bundleOf (graphicInt d + videoInt d)"
        using graphicInt_ge [of d] videoInt_ge [of d] by (intro bundle_mono) linarith
      then have "958 \<le> bundleOf (graphicInt d + videoInt d)"
        by (simp add: bundleOf_def)
      then show ?thesis using monthly_both [OF 3] by simp
    qed
    then show ?thesis using True by simp
  qed
  have "(breakdownSum (breakdown (calculatePricing d)) = monthlyPrice (calculatePricing d)) =
      (serviceType d \<notin> {''graphic'', ''video'', ''both''})"
    unfolding s using p by (simp only: eq_commute [of "Num 0"])
  then show ?thesis
    using s breakdown_calculatePricing [of d] by (simp only: simp_thms)
qed

text \<open>With no service type selected the sum and the price are both 0.\<close>

theorem breakdown_stays_zero_witness:
  "serviceType initialData \<notin> {''graphic'', ''video'', ''both''} \<and>
   breakdownSum (breakdown (calculatePricing initialData)) = monthlyPrice (calculatePricing initialData)"
proof -
  have h: "serviceType initialData \<notin> {''graphic'', ''video'', ''both''}"
    by (simp add: initialData_def)
  have "(breakdownSum (breakdown (calculatePricing initialData)) = monthlyPrice (calculatePricing initialData)) =
      (serviceType initialData \<notin> {''graphic'', ''video'', ''both''})"
    using breakdown_stays_zero [of initialData] by (rule conjunct2 [THEN conjunct2])
  then show ?thesis using h by (simp only: simp_thms)
qed

text \<open>
  A graphic request with every count 0: the components sum to 0, the price is 499.
\<close>

theorem breakdown_sum_counterexample:
  "breakdownSum (breakdown (calculatePricing (initialData\<lparr>serviceType := ''graphic''\<rparr>))) \<noteq>
   monthlyPrice (calculatePricing (initialData\<lparr>serviceType := ''graphic''\<rparr>))"
  by code_simp

text \<open>
  C2. For counts that are integers from 0 to \<open>maxCount\<close>, the price of a \<open>both\<close>
  request is strictly less than the price of the \<open>graphic\<close> request with the same
  graphic counts and bilingual flag plus the price of the \<open>video\<close> request with the
  same video counts and flags. Nonzero counts are the case the claim names; it holds for
  counts of 0 too.
\<close>

theorem bundle_cheaper:
  assumes "serviceType b = ''both''" and "serviceType g = ''graphic''" and "serviceType v = ''video''"
    and "sameGraphicInput b g" and "sameVideoInput b v"
    and "graphicCounts b sm ba br il pa" and "videoCounts b vb vm va"
  shows "js_lt (monthlyPrice (calculatePricing b))
           (js_add (monthlyPrice (calculatePricing g)) (monthlyPrice (calculatePricing v)))"
proof -
  have "graphicInt b = graphicInt g" and "videoInt b = videoInt v"
    using assms(4,5) graphicInt_same videoInt_same by blast+
  moreover have "bundleOf (graphicInt g + videoInt v) < graphicInt g + videoInt v"
    using graphicInt_ge [of g] videoInt_ge [of v] by (intro bundle_less) linarith
  ultimately show ?thesis
    using monthly_both [OF assms(1)] monthly_graphic [OF assms(2)] monthly_video [OF assms(3)]
    by simp
qed

text \<open>Sixty social media designs and three mid-level videos: 994 against 544 + 699.\<close>

theorem bundle_cheaper_witness:
  "graphicCounts (initialData\<lparr>serviceType := ''both'', smDesigns := ''60'', videoMid := ''3''\<rparr>) 60 0 0 0 0 \<and>
   videoCounts (initialData\<lparr>serviceType := ''both'', smDesigns := ''60'', videoMid := ''3''\<rparr>) 0 3 0 \<and>
   js_lt
     (monthlyPrice (calculatePricing
        (initialData\<lparr>serviceType := ''both'', smDesigns := ''60'', videoMid := ''3''\<rparr>)))
     (js_add
        (monthlyPrice (calculatePricing (initialData\<lparr>serviceType := ''graphic'', smDesigns := ''60''\<rparr>)))
        (monthlyPrice (calculatePricing (initialData\<lparr>serviceType := ''video'', videoMid := ''3''\<rparr>))))"
proof -
  let ?b = "initialData\<lparr>serviceType := ''both'', smDesigns := ''60'', videoMid := ''3''\<rparr>"
  let ?g = "initialData\<lparr>serviceType := ''graphic'', smDesigns := ''60''\<rparr>"
  let ?v = "initialData\<lparr>serviceType := ''video'', videoMid := ''3''\<rparr>"
  have n: "Number_or0 ''0'' = Num 0" "Number_or0 ''3'' = Num 3" "Number_or0 ''60'' = Num 60"
    by code_simp+
  have gc: "graphicCounts ?b 60 0 0 0 0"
    by (simp add: graphicCounts_def maxCount_def initialData_def n)
  have vc: "videoCounts ?b 0 3 0"
    by (simp add: videoCounts_def maxCount_def initialData_def n)
  have "js_lt (monthlyPrice (calculatePricing ?b))
      (js_add (monthlyPrice (calculatePricing ?g)) (monthlyPrice (calculatePricing ?v)))"
    by (rule bundle_cheaper [OF _ _ _ _ _ gc vc])
       (simp_all add: initialData_def sameGraphicInput_def sameVideoInput_def)
  then show ?thesis using gc vc by blast
qed

text \<open>
  C3. Two requests with the same service type and flags whose counts are integers from
  0 to \<open>maxCount\<close>, each count of the second at least the count of the first: the
  price of the second is at least the price of the first. Raising a single count is the
  case in which the other seven are equal.
\<close>

theorem price_monotone:
  assumes same: "serviceType d' = serviceType d" "bilingual d' = bilingual d"
      "videoNeedsScripting d' = videoNeedsScripting d" "videoNeedsStock d' = videoNeedsStock d"
    and counts: "graphicCounts d sm ba br il pa" "videoCounts d vb vm va"
      "graphicCounts d' sm' ba' br' il' pa'" "videoCounts d' vb' vm' va'"
    and le: "sm \<le> sm'" "ba \<le> ba'" "br \<le> br'" "il \<le> il'" "pa \<le> pa'" "vb \<le> vb'" "vm \<le> vm'" "va \<le> va'"
  shows "js_le (monthlyPrice (calculatePricing d)) (monthlyPrice (calculatePricing d'))"
proof -
  have g: "graphicInt d \<le> graphicInt d'"
    using graphic_hours_counts [OF counts(1)] graphic_hours_counts [OF counts(3)]
      graphicHalfHours_mono [OF le(1-5)] same(2)
    by (intro graphicInt_mono [where h = "of_nat (graphicHalfHours sm ba br il pa) / 2"
          and h' = "of_nat (graphicHalfHours sm' ba' br' il' pa') / 2"]) (simp_all add: divide_right_mono)
  have v: "videoInt d \<le> videoInt d'"
    using video_hours_counts [OF counts(2)] video_hours_counts [OF counts(4)]
      videoHalfHours_mono [OF le(6-8)] same(3,4)
    by (intro videoInt_mono [where h = "of_nat (videoHalfHours (videoNeedsScripting d) (videoNeedsStock d) vb vm va) / 2"
          and h' = "of_nat (videoHalfHours (videoNeedsScripting d) (videoNeedsStock d) vb' vm' va') / 2"])
       (simp_all add: divide_right_mono)
  have b: "bundleOf (graphicInt d + videoInt d) \<le> bundleOf (graphicInt d' + videoInt d')"
    using g v by (intro bundle_mono) linarith
  consider "serviceType d = ''graphic''" | "serviceType d = ''video''" | "serviceType d = ''both''"
    | "serviceType d \<notin> {''graphic'', ''video'', ''both''}"
    by auto
  then show ?thesis
  proof cases
    case 1
    then show ?thesis using g same(1) by (simp add: monthly_graphic)
  next
    case 2
    then show ?thesis using v same(1) by (simp add: monthly_video)
  next
    case 3
    then show ?thesis using b same(1) by (simp add: monthly_both)
  next
    case 4
    then show ?thesis using same(1) by (simp add: calculatePricing_unselected)
  qed
qed

text \<open>
  A bundle with 60 designs and 20 mid-level videos, and the same with 21 videos: the
  price rises from 1426 to 1474.
\<close>

theorem price_monotone_witness:
  "graphicCounts (initialData\<lparr>serviceType := ''both'', smDesigns := ''60'', videoMid := ''20''\<rparr>) 60 0 0 0 0 \<and>
   videoCounts (initialData\<lparr>serviceType := ''both'', smDesigns := ''60'', videoMid := ''20''\<rparr>) 0 20 0 \<and>
   videoCounts (initialData\<lparr>serviceType := ''both'', smDesigns := ''60'', videoMid := ''21''\<rparr>) 0 21 0 \<and>
   js_le
     (monthlyPrice (calculatePricing
        (initialData\<lparr>serviceType := ''both'', smDesigns := ''60'', videoMid := ''20''\<rparr>)))
     (monthlyPrice (calculatePricing
        (initialData\<lparr>serviceType := ''both'', smDesigns := ''60'', videoMid := ''21''\<rparr>)))"
proof -
  let ?d = "initialData\<lparr>serviceType := ''both'', smDesigns := ''60'', videoMid := ''20''\<rparr>"
  let ?d' = "initialData\<lparr>serviceType := ''both'', smDesigns := ''60'', videoMid := ''21''\<rparr>"
  have n: "Number_or0 ''0'' = Num 0" "Number_or0 ''20'' = Num 20" "Number_or0 ''21'' = Num 21"
      "Number_or0 ''60'' = Num 60"
    by code_simp+
  have g: "graphicCounts ?d 60 0 0 0 0"
    by (simp add: graphicCounts_def maxCount_def initialData_def n)
  have v: "videoCounts ?d 0 20 0"
    by (simp add: videoCounts_def maxCount_def initialData_def n)
  have g': "graphicCounts ?d' 60 0 0 0 0"
    by (simp add: graphicCounts_def maxCount_def initialData_def n)
  have v': "videoCounts ?d' 0 21 0"
    by (simp add: videoCounts_def maxCount_def initialData_def n)
  have "js_le (monthlyPrice (calculatePricing ?d)) (monthlyPrice (calculatePricing ?d'))"
    by (rule price_monotone [OF _ _ _ _ g v g' v']) simp_all
  then show ?thesis using g v v' by blast
qed

text \<open>
  C4. A graphic or a video request whose counts are integers from 0 to \<open>maxCount\<close>,
  with \<open>h\<close> the weighted sum of its counts (for a video request the hours per video
  of the scripting and stock flags are part of the weights). The estimated hours are
  \<open>h\<close>, and the price is the rounded base price, 499 or 699, plus \<open>(h - 55)\<close> times
  the hourly rate, 9 or 12, when \<open>55 < h\<close> and plus nothing otherwise, the graphic
  amount multiplied by 1.1 when the bilingual flag is set. So for \<open>h \<le> 55\<close> the price
  is 499 (549, which is 548.9 rounded, when bilingual) or 699; the price is above that
  amount if and only if \<open>55 < h\<close>; and when all counts of the category are 0 the price
  is that amount.
\<close>

theorem base_price_within_allotment:
  assumes "(serviceType d = ''graphic'' \<and> graphicCounts d sm ba br il pa \<and>
              h = weightedGraphicHours sm ba br il pa) \<or>
           (serviceType d = ''video'' \<and> videoCounts d vb vm va \<and>
              h = weightedVideoHours (videoNeedsScripting d) (videoNeedsStock d) vb vm va)"
  shows "estimatedHours (calculatePricing d) = Num h \<and>
         monthlyPrice (calculatePricing d) =
           (if serviceType d = ''graphic''
            then Math_round (Num ((499 + (if 55 < h then (h - 55) * 9 else 0)) * (if bilingual d then 11 / 10 else 1)))
            else Math_round (Num (699 + (if 55 < h then (h - 55) * 12 else 0)))) \<and>
         (h \<le> 55 \<longrightarrow>
            monthlyPrice (calculatePricing d) =
              Num (if serviceType d = ''graphic'' then (if bilingual d then 549 else 499) else 699)) \<and>
         (js_gt (monthlyPrice (calculatePricing d))
            (Num (if serviceType d = ''graphic'' then (if bilingual d then 549 else 499) else 699))
          = (55 < h)) \<and>
         ((serviceType d = ''graphic'' \<and> sm = 0 \<and> ba = 0 \<and> br = 0 \<and> il = 0 \<and> pa = 0) \<or>
          (serviceType d = ''video'' \<and> vb = 0 \<and> vm = 0 \<and> va = 0) \<longrightarrow>
            monthlyPrice (calculatePricing d) =
              Num (if serviceType d = ''graphic'' then (if bilingual d then 549 else 499) else 699))"
proof (cases "serviceType d = ''graphic''")
  case True
  then have gc: "graphicCounts d sm ba br il pa" and hd: "h = weightedGraphicHours sm ba br il pa"
    using assms by auto
  have hh: "totalHours (getGraphicTotals d) = Num h"
    using graphic_hours_weighted [OF gc] hd by simp
  have eh: "estimatedHours (calculatePricing d) = Num h"
    using True hh by (simp add: estimatedHours_calculatePricing graphic_hours_eq)
  have mp: "monthlyPrice (calculatePricing d) = Num (of_int (graphicInt d))"
    using True by (rule monthly_graphic)
  have c1: "monthlyPrice (calculatePricing d) =
      Math_round (Num ((499 + (if 55 < h then (h - 55) * 9 else 0)) * (if bilingual d then 11 / 10 else 1)))"
    unfolding mp graphicInt_def hh by (simp add: excess_def)
  have c2: "h \<le> 55 \<Longrightarrow> graphicInt d = (if bilingual d then 549 else 499)"
    using graphicInt_within [OF hh] .
  have eq: "h = of_nat (graphicHalfHours sm ba br il pa) / 2"
    using hd by (simp add: weightedGraphicHours_half)
  have c3: "(if bilingual d then 549 else 499) < graphicInt d \<longleftrightarrow> 55 < h"
  proof (cases "55 < h")
    case True
    then show ?thesis using graphicInt_over [of d "graphicHalfHours sm ba br il pa"] hh eq by simp
  next
    case False
    then show ?thesis using c2 by simp
  qed
  have c4: "h = 0" if "sm = 0 \<and> ba = 0 \<and> br = 0 \<and> il = 0 \<and> pa = 0"
    using that hd by (simp add: weightedGraphicHours_def)
  show ?thesis
    using True eh c1 c2 c3 c4 mp by auto
next
  case False
  then have v: "serviceType d = ''video''" and vc: "videoCounts d vb vm va"
    and hd: "h = weightedVideoHours (videoNeedsScripting d) (videoNeedsStock d) vb vm va"
    using assms by auto
  have hh: "hours (computeVideoPricing d) = Num h"
    using video_hours_weighted [OF vc] hd by simp
  have eh: "estimatedHours (calculatePricing d) = Num h"
    using v hh by (simp add: estimatedHours_calculatePricing)
  have mp: "monthlyPrice (calculatePricing d) = Num (of_int (videoInt d))"
    using v by (rule monthly_video)
  have c1: "monthlyPrice (calculatePricing d) = Math_round (Num (699 + (if 55 < h then (h - 55) * 12 else 0)))"
    unfolding mp videoInt_def hh by (simp add: excess_def)
  have c2: "h \<le> 55 \<Longrightarrow> videoInt d = 699"
    using videoInt_within [OF hh] .
  have eq: "h = of_nat (videoHalfHours (videoNeedsScripting d) (videoNeedsStock d) vb vm va) / 2"
    using hd by (simp add: weightedVideoHours_half)
  have c3: "699 < videoInt d \<longleftrightarrow> 55 < h"
  proof (cases "55 < h")
    case True
    then show ?thesis
      using videoInt_over [of d "videoHalfHours (videoNeedsScripting d) (videoNeedsStock d) vb vm va"] hh eq
      by simp
  next
    case False
    then show ?thesis using c2 by simp
  qed
  have c4: "h = 0" if "vb = 0 \<and> vm = 0 \<and> va = 0"
    using that hd by (simp add: weightedVideoHours_def)
  show ?thesis
    using False eh c1 c2 c3 c4 mp by auto
qed

text \<open>
  Twenty-two basic videos are exactly 55 hours and cost the base price, 699; twenty-three
  are 57.5 hours and cost 729; fifty brochures are 250 hours and cost 2254; a graphic
  request with every count 0 costs 499.
\<close>

theorem base_price_within_allotment_witness:
  "estimatedHours (calculatePricing (initialData\<lparr>serviceType := ''video'', videoBasic := ''22''\<rparr>)) = Num 55 \<and>
   monthlyPrice (calculatePricing (initialData\<lparr>serviceType := ''video'', videoBasic := ''22''\<rparr>)) = Num 699 \<and>
   estimatedHours (calculatePricing (initialData\<lparr>serviceType := ''video'', videoBasic := ''23''\<rparr>)) = Num (115 / 2) \<and>
   js_gt (monthlyPrice (calculatePricing (initialData\<lparr>serviceType := ''video'', videoBasic := ''23''\<rparr>))) (Num 699) \<and>
   estimatedHours (calculatePricing (initialData\<lparr>serviceType := ''graphic'', brochures := ''50''\<rparr>)) = Num 250 \<and>
   monthlyPrice (calculatePricing (initialData\<lparr>serviceType := ''graphic'', brochures := ''50''\<rparr>)) = Num 2254 \<and>
   monthlyPrice (calculatePricing (initialData\<lparr>serviceType := ''graphic''\<rparr>)) = Num 499"
proof -
  let ?a = "initialData\<lparr>serviceType := ''video'', videoBasic := ''22''\<rparr>"
  let ?b = "initialData\<lparr>serviceType := ''video'', videoBasic := ''23''\<rparr>"
  let ?c = "initialData\<lparr>serviceType := ''graphic''\<rparr>"
  let ?e = "initialData\<lparr>serviceType := ''graphic'', brochures := ''50''\<rparr>"
  have n: "Number_or0 ''0'' = Num 0" "Number_or0 ''22'' = Num 22" "Number_or0 ''23'' = Num 23"
      "Number_or0 ''50'' = Num 50"
    by code_simp+
  have fl: "\<not> videoNeedsScripting ?a" "\<not> videoNeedsStock ?a" "\<not> videoNeedsScripting ?b"
      "\<not> videoNeedsStock ?b" "\<not> bilingual ?c" "\<not> bilingual ?e"
    by (simp_all add: initialData_def)
  have pa: "serviceType ?a = ''video'' \<and> videoCounts ?a 22 0 0 \<and>
      55 = weightedVideoHours (videoNeedsScripting ?a) (videoNeedsStock ?a) 22 0 0"
    by (simp add: videoCounts_def maxCount_def initialData_def n weightedVideoHours_def)
  have pb: "serviceType ?b = ''video'' \<and> videoCounts ?b 23 0 0 \<and>
      115 / 2 = weightedVideoHours (videoNeedsScripting ?b) (videoNeedsStock ?b) 23 0 0"
    by (simp add: videoCounts_def maxCount_def initialData_def n weightedVideoHours_def)
  have pc: "serviceType ?c = ''graphic'' \<and> graphicCounts ?c 0 0 0 0 0 \<and>
      0 = weightedGraphicHours 0 0 0 0 0"
    by (simp add: graphicCounts_def maxCount_def initialData_def n weightedGraphicHours_def)
  have pe: "serviceType ?e = ''graphic'' \<and> graphicCounts ?e 0 0 50 0 0 \<and>
      250 = weightedGraphicHours 0 0 50 0 0"
    by (simp add: graphicCounts_def maxCount_def initialData_def n weightedGraphicHours_def)
  have 1: "estimatedHours (calculatePricing ?a) = Num 55 \<and> monthlyPrice (calculatePricing ?a) = Num 699"
    using base_price_within_allotment [of ?a 0 0 0 0 0 55 22 0 0] pa by (simp add: floor_rat_numeral)
  have 2: "estimatedHours (calculatePricing ?b) = Num (115 / 2) \<and>
      js_gt (monthlyPrice (calculatePricing ?b)) (Num 699)"
    using base_price_within_allotment [of ?b 0 0 0 0 0 "115 / 2" 23 0 0] pb by (simp add: floor_rat_numeral)
  have 3: "monthlyPrice (calculatePricing ?c) = Num 499"
    using base_price_within_allotment [of ?c 0 0 0 0 0 0 0 0 0] pc fl(5) by (simp add: floor_rat_numeral)
  have 4: "estimatedHours (calculatePricing ?e) = Num 250 \<and> monthlyPrice (calculatePricing ?e) = Num 2254"
    using base_price_within_allotment [of ?e 0 0 50 0 0 250 0 0 0] pe fl(6)
    by (simp add: floor_rat_numeral)
  show ?thesis using 1 2 3 4 by blast
qed

text \<open>
  C5. In \<open>computeGraphicPricing\<close> with the bilingual flag set and total hours \<open>h\<close>,
  the price before \<open>Math.round\<close> is the base price plus the overage, the whole
  multiplied by 1.1, and the price of the function, which is \<open>monthlyPrice\<close> of a
  graphic request, is that value rounded.
\<close>

theorem bilingual_on_running_total:
  assumes "bilingual d" and "totalHours (getGraphicTotals d) = Num h"
  shows "graphicFinalPrice d = Num ((499 + max 0 (h - 55) * 9) * (11 / 10)) \<and>
         price (computeGraphicPricing d) = Math_round (Num ((499 + max 0 (h - 55) * 9) * (11 / 10))) \<and>
         (serviceType d = ''graphic'' \<longrightarrow>
            monthlyPrice (calculatePricing d) = Math_round (Num ((499 + max 0 (h - 55) * 9) * (11 / 10))))"
proof -
  have "excess (Num h) = max 0 (h - 55)"
    by (simp add: excess_def max_def)
  then have fp: "graphicFinalPrice d = Num ((499 + max 0 (h - 55) * 9) * (11 / 10))"
    using assms by (simp add: graphicFinalPrice_eq)
  then have "price (computeGraphicPricing d) = Math_round (Num ((499 + max 0 (h - 55) * 9) * (11 / 10)))"
    by (simp add: computeGraphicPricing_def)
  then show ?thesis using fp by (simp add: monthlyPrice_calculatePricing)
qed

text \<open>
  Sixty social media designs, bilingual: 60 hours, (499 + 5 * 9) * 1.1 = 598.4, price 598.
  The surcharge on the base price alone would give 499 * 1.1 + 45 = 593.9.
\<close>

theorem bilingual_on_running_total_witness:
  "totalHours (getGraphicTotals
      (initialData\<lparr>serviceType := ''graphic'', smDesigns := ''60'', bilingual := True\<rparr>)) = Num 60 \<and>
   graphicFinalPrice (initialData\<lparr>serviceType := ''graphic'', smDesigns := ''60'', bilingual := True\<rparr>)
     = Num (2992 / 5) \<and>
   monthlyPrice (calculatePricing
      (initialData\<lparr>serviceType := ''graphic'', smDesigns := ''60'', bilingual := True\<rparr>)) = Num 598"
proof -
  let ?d = "initialData\<lparr>serviceType := ''graphic'', smDesigns := ''60'', bilingual := True\<rparr>"
  have b: "bilingual ?d" by simp
  have h: "totalHours (getGraphicTotals ?d) = Num 60" by code_simp
  have s: "serviceType ?d = ''graphic''" by simp
  have r: "Math_round (Num ((499 + max 0 (60 - 55) * 9) * (11 / 10))) = Num 598" by code_simp
  show ?thesis
    using bilingual_on_running_total [OF b h] s h r by simp
qed

text \<open>
  C6. When the service type is none of \<open>graphic\<close>, \<open>video\<close>, \<open>both\<close> the result is
  the initial one: price 0, every breakdown component 0, no included item, 0 hours.
  \<open>calculatePricing\<close> and the functions it calls contain no \<open>throw\<close> and apply only
  conversions, arithmetic, comparisons and \<open>push\<close>, which are defined on every value of
  the fields' types; accordingly the model is a total function without an error result.
\<close>

theorem unselected_zero_result:
  assumes "serviceType d \<notin> {''graphic'', ''video'', ''both''}"
  shows "calculatePricing d =
           \<lparr>monthlyPrice = Num 0,
            breakdown = \<lparr>basePrice = Num 0, volumeAdjustment = Num 0, complexityAdjustment = Num 0,
                         bilingualBonus = Num 0, addOns = Num 0\<rparr>,
            includes = [],
            estimatedHours = Num 0\<rparr>"
  using assms by (rule calculatePricing_unselected)

text \<open>The initial state of the component, and a request with fields that are not numbers.\<close>

theorem unselected_zero_result_witness:
  "serviceType initialData \<notin> {''graphic'', ''video'', ''both''} \<and>
   calculatePricing initialData =
     \<lparr>monthlyPrice = Num 0,
      breakdown = \<lparr>basePrice = Num 0, volumeAdjustment = Num 0, complexityAdjustment = Num 0,
                   bilingualBonus = Num 0, addOns = Num 0\<rparr>,
      includes = [],
      estimatedHours = Num 0\<rparr> \<and>
   calculatePricing (initialData\<lparr>smDesigns := ''abc'', videoBasic := ''-1''\<rparr>) =
     \<lparr>monthlyPrice = Num 0,
      breakdown = \<lparr>basePrice = Num 0, volumeAdjustment = Num 0, complexityAdjustment = Num 0,
                   bilingualBonus = Num 0, addOns = Num 0\<rparr>,
      includes = [],
      estimatedHours = Num 0\<rparr>"
proof -
  have a: "serviceType initialData \<notin> {''graphic'', ''video'', ''both''}"
    by (simp add: initialData_def)
  have b: "serviceType (initialData\<lparr>smDesigns := ''abc'', videoBasic := ''-1''\<rparr>)
      \<notin> {''graphic'', ''video'', ''both''}"
    by (simp add: initialData_def)
  show ?thesis
    using a unselected_zero_result [OF a] unselected_zero_result [OF b] by simp
qed

text \<open>
  C7, as amended. The claim is that every numeric field is coerced to a non-negative
  integer. The code converts a field with \<open>Number(field || 0)\<close> and nothing else: an
  empty field gives 0, and a field of at most nine decimal digits gives the non-negative
  integer it denotes. So when the count fields of a request are each empty or at most
  nine decimal digits, \<open>getGraphicTotals\<close>, \<open>calculateDesignHours\<close> and
  \<open>computeVideoPricing\<close> compute with these non-negative integers, and the hours are
  their weighted sum. Other numeric strings keep their value, negative or fractional.
\<close>

theorem blank_or_digits_coercion:
  "(s = [] \<longrightarrow> Number_or0 s = Num 0) \<and>
   (digitField s \<longrightarrow>
      Number_or0 s = Num (of_nat (decimalValue s)) \<and> isNonNegInteger (Number_or0 s)) \<and>
   (digitField (smDesigns d) \<and> digitField (banners d) \<and> digitField (brochures d) \<and>
    digitField (illustrations d) \<and> digitField (packaging d) \<longrightarrow>
      graphicCounts d (decimalValue (smDesigns d)) (decimalValue (banners d)) (decimalValue (brochures d))
        (decimalValue (illustrations d)) (decimalValue (packaging d)) \<and>
      gt_sm (getGraphicTotals d) = Num (of_nat (decimalValue (smDesigns d))) \<and>
      gt_banners (getGraphicTotals d) = Num (of_nat (decimalValue (banners d))) \<and>
      gt_brochures (getGraphicTotals d) = Num (of_nat (decimalValue (brochures d))) \<and>
      gt_illustrations (getGraphicTotals d) = Num (of_nat (decimalValue (illustrations d))) \<and>
      gt_packaging (getGraphicTotals d) = Num (of_nat (decimalValue (packaging d))) \<and>
      totalHours (getGraphicTotals d) =
        Num (weightedGraphicHours (decimalValue (smDesigns d)) (decimalValue (banners d))
          (decimalValue (brochures d)) (decimalValue (illustrations d)) (decimalValue (packaging d))) \<and>
      calculateDesignHours d =
        Num (weightedGraphicHours (decimalValue (smDesigns d)) (decimalValue (banners d))
          (decimalValue (brochures d)) (decimalValue (illustrations d)) (decimalValue (packaging d)))) \<and>
   (digitField (videoBasic d) \<and> digitField (videoMid d) \<and> digitField (videoAdvanced d) \<longrightarrow>
      videoCounts d (decimalValue (videoBasic d)) (decimalValue (videoMid d)) (decimalValue (videoAdvanced d)) \<and>
      hours (computeVideoPricing d) =
        Num (weightedVideoHours (videoNeedsScripting d) (videoNeedsStock d)
          (decimalValue (videoBasic d)) (decimalValue (videoMid d)) (decimalValue (videoAdvanced d))))"
proof -
  have p1: "s = [] \<longrightarrow> Number_or0 s = Num 0"
    by (simp add: Number_or0_def)
  have p2: "digitField s \<longrightarrow>
      Number_or0 s = Num (of_nat (decimalValue s)) \<and> isNonNegInteger (Number_or0 s)"
    by (simp add: digitField_Number isNonNegInteger_def)
  have p3: "graphicCounts d (decimalValue (smDesigns d)) (decimalValue (banners d)) (decimalValue (brochures d))
        (decimalValue (illustrations d)) (decimalValue (packaging d)) \<and>
      gt_sm (getGraphicTotals d) = Num (of_nat (decimalValue (smDesigns d))) \<and>
      gt_banners (getGraphicTotals d) = Num (of_nat (decimalValue (banners d))) \<and>
      gt_brochures (getGraphicTotals d) = Num (of_nat (decimalValue (brochures d))) \<and>
      gt_illustrations (getGraphicTotals d) = Num (of_nat (decimalValue (illustrations d))) \<and>
      gt_packaging (getGraphicTotals d) = Num (of_nat (decimalValue (packaging d))) \<and>
      totalHours (getGraphicTotals d) =
        Num (weightedGraphicHours (decimalValue (smDesigns d)) (decimalValue (banners d))
          (decimalValue (brochures d)) (decimalValue (illustrations d)) (decimalValue (packaging d))) \<and>
      calculateDesignHours d =
        Num (weightedGraphicHours (decimalValue (smDesigns d)) (decimalValue (banners d))
          (decimalValue (brochures d)) (decimalValue (illustrations d)) (decimalValue (packaging d)))"
    if f: "digitField (smDesigns d) \<and> digitField (banners d) \<and> digitField (brochures d) \<and>
      digitField (illustrations d) \<and> digitField (packaging d)"
  proof -
    have gc: "graphicCounts d (decimalValue (smDesigns d)) (decimalValue (banners d))
        (decimalValue (brochures d)) (decimalValue (illustrations d)) (decimalValue (packaging d))"
      using f by (simp add: graphicCounts_def digitField_Number digitField_le)
    have cd: "calculateDesignHours d = totalHours (getGraphicTotals d)"
      by (simp add: calculateDesignHours_def getGraphicTotals_def Let_def)
    have fs: "gt_sm (getGraphicTotals d) = Number_or0 (smDesigns d)"
        "gt_banners (getGraphicTotals d) = Number_or0 (banners d)"
        "gt_brochures (getGraphicTotals d) = Number_or0 (brochures d)"
        "gt_illustrations (getGraphicTotals d) = Number_or0 (illustrations d)"
        "gt_packaging (getGraphicTotals d) = Number_or0 (packaging d)"
      by (simp_all add: getGraphicTotals_def Let_def)
    show ?thesis
      using f gc graphic_hours_weighted [OF gc] by (simp add: cd fs digitField_Number)
  qed
  have p4: "videoCounts d (decimalValue (videoBasic d)) (decimalValue (videoMid d)) (decimalValue (videoAdvanced d)) \<and>
      hours (computeVideoPricing d) =
        Num (weightedVideoHours (videoNeedsScripting d) (videoNeedsStock d)
          (decimalValue (videoBasic d)) (decimalValue (videoMid d)) (decimalValue (videoAdvanced d)))"
    if f: "digitField (videoBasic d) \<and> digitField (videoMid d) \<and> digitField (videoAdvanced d)"
  proof -
    have vc: "videoCounts d (decimalValue (videoBasic d)) (decimalValue (videoMid d))
        (decimalValue (videoAdvanced d))"
      using f by (simp add: videoCounts_def digitField_Number digitField_le)
    show ?thesis
      using vc video_hours_weighted [OF vc] by simp
  qed
  show ?thesis
    using p1 p2 p3 p4 by blast
qed

text \<open>
  A blank field and the field \<open>15\<close>; the initial state with 15 social media designs has
  the counts 15, 0, 0, 0, 0 and 0, 0, 0, and 15 graphic hours.
\<close>

theorem blank_or_digits_coercion_witness:
  "Number_or0 [] = Num 0 \<and> Number_or0 ''15'' = Num 15 \<and> isNonNegInteger (Number_or0 ''15'') \<and>
   graphicCounts (initialData\<lparr>smDesigns := ''15''\<rparr>) 15 0 0 0 0 \<and>
   totalHours (getGraphicTotals (initialData\<lparr>smDesigns := ''15''\<rparr>)) = Num 15 \<and>
   calculateDesignHours (initialData\<lparr>smDesigns := ''15''\<rparr>) = Num 15 \<and>
   videoCounts (initialData\<lparr>smDesigns := ''15''\<rparr>) 0 0 0 \<and>
   hours (computeVideoPricing (initialData\<lparr>smDesigns := ''15''\<rparr>)) = Num 0"
proof -
  let ?d = "initialData\<lparr>smDesigns := ''15''\<rparr>"
  have a: "digitField ''15''" "digitField ''0''" "digitField []" by code_simp+
  have b: "decimalValue ''15'' = 15" "decimalValue ''0'' = 0" by code_simp+
  have f: "smDesigns ?d = ''15''" "banners ?d = ''0''" "brochures ?d = ''0''"
      "illustrations ?d = ''0''" "packaging ?d = ''0''" "videoBasic ?d = ''0''"
      "videoMid ?d = ''0''" "videoAdvanced ?d = ''0''" "\<not> videoNeedsScripting ?d" "\<not> videoNeedsStock ?d"
    by (simp_all add: initialData_def)
  have w: "weightedGraphicHours 15 0 0 0 0 = 15" "weightedVideoHours False False 0 0 0 = 0"
    by (simp_all add: weightedGraphicHours_def weightedVideoHours_def)
  have 1: "Number_or0 [] = Num 0"
    using blank_or_digits_coercion [of "[]" ?d] by blast
  have 2: "Number_or0 ''15'' = Num 15 \<and> isNonNegInteger (Number_or0 ''15'')"
    using blank_or_digits_coercion [of "''15''" ?d] a(1) b(1) by (simp add: isNonNegInteger_def)
  have 3: "graphicCounts ?d 15 0 0 0 0 \<and> totalHours (getGraphicTotals ?d) = Num 15 \<and>
      calculateDesignHours ?d = Num 15"
    using blank_or_digits_coercion [of "[]" ?d] a b w unfolding f by simp
  have 4: "videoCounts ?d 0 0 0 \<and> hours (computeVideoPricing ?d) = Num 0"
    using blank_or_digits_coercion [of "[]" ?d] a b unfolding f
    by (simp add: weightedVideoHours_def initialData_def)
  show ?thesis using 1 2 3 4 by blast
qed

text \<open>
  A graphic request with \<open>-3\<close> social media designs enters the hour formula with the
  count \<open>-3\<close> and has \<open>-3\<close> hours; a video request with \<open>1.5\<close> basic videos has 3.75
  hours.
\<close>

theorem coercion_counterexample:
  "gt_sm (getGraphicTotals (initialData\<lparr>serviceType := ''graphic'', smDesigns := ''-3''\<rparr>)) = Num (- 3) \<and>
   calculateDesignHours (initialData\<lparr>serviceType := ''graphic'', smDesigns := ''-3''\<rparr>) = Num (- 3) \<and>
   \<not> isNonNegInteger (gt_sm (getGraphicTotals (initialData\<lparr>serviceType := ''graphic'', smDesigns := ''-3''\<rparr>))) \<and>
   estimatedHours (calculatePricing (initialData\<lparr>serviceType := ''graphic'', smDesigns := ''-3''\<rparr>)) = Num (- 3) \<and>
   estimatedHours (calculatePricing (initialData\<lparr>serviceType := ''video'', videoBasic := ''1.5''\<rparr>)) = Num (15 / 4)"
  by code_simp

text \<open>
  C8. For a request whose service type is \<open>graphic\<close>, \<open>video\<close> or \<open>both\<close> and
  whose counts (the graphic ones, the video ones, or all eight) are integers from 0 to
  \<open>maxCount\<close>, the price is an integer, at least 499 for \<open>graphic\<close>, at least 699
  for \<open>video\<close> and at least 958 for \<open>both\<close>: the two base prices together, 1198,
  less the discount of 240.
\<close>

theorem price_at_least_base:
  assumes "(serviceType d = ''graphic'' \<and> graphicCounts d sm ba br il pa) \<or>
           (serviceType d = ''video'' \<and> videoCounts d vb vm va) \<or>
           (serviceType d = ''both'' \<and> graphicCounts d sm ba br il pa \<and> videoCounts d vb vm va)"
  shows "\<exists>k::int. monthlyPrice (calculatePricing d) = Num (of_int k) \<and>
           (if serviceType d = ''graphic'' then 499 else if serviceType d = ''video'' then 699 else 958) \<le> k"
proof -
  consider "serviceType d = ''graphic''" | "serviceType d = ''video''" | "serviceType d = ''both''"
    using assms by auto
  then show ?thesis
  proof cases
    case 1
    then show ?thesis using monthly_graphic [OF 1] graphicInt_ge [of d] by auto
  next
    case 2
    then show ?thesis using monthly_video [OF 2] videoInt_ge [of d] by auto
  next
    case 3
    have "bundleOf (499 + 699) \<le> bundleOf (graphicInt d + videoInt d)"
      using graphicInt_ge [of d] videoInt_ge [of d] by (intro bundle_mono) linarith
    moreover have "bundleOf (499 + 699) = 958"
      by (simp add: bundleOf_def)
    ultimately show ?thesis using monthly_both [OF 3] 3 by auto
  qed
qed

text \<open>
  The bundle with every count 0 costs exactly 958; a graphic request with 60 social media
  designs costs 544.
\<close>

theorem price_at_least_base_witness:
  "graphicCounts (initialData\<lparr>serviceType := ''both''\<rparr>) 0 0 0 0 0 \<and>
   videoCounts (initialData\<lparr>serviceType := ''both''\<rparr>) 0 0 0 \<and>
   monthlyPrice (calculatePricing (initialData\<lparr>serviceType := ''both''\<rparr>)) = Num 958 \<and>
   (\<exists>k::int. monthlyPrice (calculatePricing (initialData\<lparr>serviceType := ''both''\<rparr>)) = Num (of_int k) \<and>
      958 \<le> k) \<and>
   (\<exists>k::int. monthlyPrice (calculatePricing (initialData\<lparr>serviceType := ''graphic'', smDesigns := ''60''\<rparr>))
      = Num (of_int k) \<and> 499 \<le> k)"
proof -
  let ?d = "initialData\<lparr>serviceType := ''both''\<rparr>"
  let ?g = "initialData\<lparr>serviceType := ''graphic'', smDesigns := ''60''\<rparr>"
  have n: "Number_or0 ''0'' = Num 0" "Number_or0 ''60'' = Num 60" by code_simp+
  have gc: "graphicCounts ?d 0 0 0 0 0"
    by (simp add: graphicCounts_def maxCount_def initialData_def n)
  have vc: "videoCounts ?d 0 0 0"
    by (simp add: videoCounts_def maxCount_def initialData_def n)
  have gg: "graphicCounts ?g 60 0 0 0 0"
    by (simp add: graphicCounts_def maxCount_def initialData_def n)
  have b: "monthlyPrice (calculatePricing ?d) = Num 958"
    by code_simp
  have 1: "\<exists>k::int. monthlyPrice (calculatePricing ?d) = Num (of_int k) \<and> 958 \<le> k"
    using price_at_least_base [of ?d 0 0 0 0 0 0 0 0] gc vc by simp
  have 2: "\<exists>k::int. monthlyPrice (calculatePricing ?g) = Num (of_int k) \<and> 499 \<le> k"
    using price_at_least_base [of ?g 60 0 0 0 0 0 0 0] gg by simp
  show ?thesis using gc vc b 1 2 by blast
qed

text \<open>
  C9, as amended. The claim is that 15 basic edits exceed the included hours, so that an
  overage is charged and listed. A basic edit is 2.5 hours: 15 of them are 37.5 hours,
  which do not exceed 55. The result is the base price 699 with no overage, 37.5 hours,
  and the two items \<open>Video Editing Package\<close> and \<open>15 videos/month (mix of basic,
  mid-level, advanced)\<close>.
\<close>

theorem fifteen_basic_edits:
  "calculatePricing (initialData\<lparr>serviceType := ''video'', videoBasic := ''15''\<rparr>) =
     \<lparr>monthlyPrice = Num 699,
      breakdown = \<lparr>basePrice = Num 0, volumeAdjustment = Num 0, complexityAdjustment = Num 0,
                   bilingualBonus = Num 0, addOns = Num 0\<rparr>,
      includes = [''Video Editing Package'', ''15 videos/month (mix of basic, mid-level, advanced)''],
      estimatedHours = Num (75 / 2)\<rparr>"
  by code_simp

text \<open>The hours of that request are not greater than 55.\<close>

theorem fifteen_basic_edits_counterexample:
  "\<not> js_gt (estimatedHours (calculatePricing (initialData\<lparr>serviceType := ''video'', videoBasic := ''15''\<rparr>)))
       (Num 55)"
  by code_simp

text \<open>
  C10. Setting the \<open>videoSubtitles\<close> flag to any value leaves the price, the estimated
  hours and the breakdown of the result as they were, for every request; only the list of
  included items can differ.
\<close>

theorem subtitles_frame:
  "monthlyPrice (calculatePricing (d\<lparr>videoSubtitles := b\<rparr>)) = monthlyPrice (calculatePricing d) \<and>
   estimatedHours (calculatePricing (d\<lparr>videoSubtitles := b\<rparr>)) = estimatedHours (calculatePricing d) \<and>
   breakdown (calculatePricing (d\<lparr>videoSubtitles := b\<rparr>)) = breakdown (calculatePricing d)"
  by (simp add: monthlyPrice_calculatePricing estimatedHours_calculatePricing breakdown_calculatePricing
      computeGraphicPricing_subtitles computeVideoPricing_subtitles)

end
